theory Spec2Isabelle
  imports Complex_Main
begin

section \<open>Python values, floats and exceptions\<close>

text \<open>
  The signal-processing helpers of \<^verbatim>\<open>api/utils.py\<close> and the heat-map grid view of
  \<^verbatim>\<open>api/views.py\<close> are embedded as HOL functions.

  Python integers are \<^typ>\<open>int\<close>. A Python float is modelled as a \<^typ>\<open>real\<close>: the
  arithmetic \<open>+\<close>, \<open>-\<close>, \<open>*\<close>, \<open>/\<close> is exact, so rounding error, infinities and
  NaN are outside the model. The integers of the program are readings and calibration
  values in dBm; an integer operand of a float operation is converted exactly, as Python
  does for every integer below \<open>2\<^sup>5\<^sup>3\<close> in absolute value. What the model keeps of the
  finite double range is what changes the control flow of the source on float operands:
  the exceptions. True division raises \<open>ZeroDivisionError\<close> on a zero divisor, and the
  two power operations (\<^verbatim>\<open>math.pow\<close> and the float operator \<^verbatim>\<open>**\<close>) raise
  \<open>OverflowError\<close> when the exact result lies beyond the largest finite double.
  An exception is a value \<open>Inl e\<close> of a sum type; a normal return is \<open>Inr v\<close>.
  The calls to \<^verbatim>\<open>logger.warning\<close> in the handlers have no effect on the results and are
  left out.
\<close>

datatype py_error = ZeroDivisionError | OverflowError | ValueError | KeyError

definition bind_err :: "py_error + 'a \<Rightarrow> ('a \<Rightarrow> py_error + 'b) \<Rightarrow> py_error + 'b" where
  "bind_err m f = (case m of Inl e \<Rightarrow> Inl e | Inr v \<Rightarrow> f v)"

text \<open>
  \<^verbatim>\<open>try: body except (E1, ..., En): return fallback\<close>. None of the four exception
  classes used here is a subclass of another, so a handler catches exactly the classes it
  lists.
\<close>

definition try_except :: "py_error list \<Rightarrow> 'a \<Rightarrow> py_error + 'a \<Rightarrow> py_error + 'a" where
  "try_except caught fallback m =
     (case m of
        Inl e \<Rightarrow> if e \<in> set caught then Inr fallback else Inl e
      | Inr v \<Rightarrow> Inr v)"

text \<open>The largest finite double, \<open>(2 - 2\<^sup>-\<^sup>5\<^sup>2) * 2\<^sup>1\<^sup>0\<^sup>2\<^sup>3\<close>.\<close>

definition dbl_max :: real where
  "dbl_max = (2 ^ 53 - 1) * 2 ^ 971"

definition py_truediv :: "real \<Rightarrow> real \<Rightarrow> py_error + real" where
  "py_truediv a b = (if b = 0 then Inl ZeroDivisionError else Inr (a / b))"

text \<open>
  \<^verbatim>\<open>math.pow(x, y)\<close>: a domain error (zero to a negative power, a negative base with a
  fractional exponent) is a \<open>ValueError\<close>, a result out of range an \<open>OverflowError\<close>.
\<close>

definition math_pow :: "real \<Rightarrow> real \<Rightarrow> py_error + real" where
  "math_pow b y =
     (if b = 0 \<and> y < 0 then Inl ValueError
      else if b < 0 \<and> y \<notin> \<int> then Inl ValueError
      else
        let r = (if y = 0 then 1
                 else if 0 < b then b powr y
                 else if b = 0 then 0
                 else (if even \<lfloor>y\<rfloor> then 1 else - 1) * (- b) powr y)
        in if dbl_max < \<bar>r\<bar> then Inl OverflowError else Inr r)"

text \<open>The float operator \<^verbatim>\<open>v ** n\<close> for a literal exponent \<open>n\<close>.\<close>

definition py_float_pow :: "real \<Rightarrow> nat \<Rightarrow> py_error + real" where
  "py_float_pow v n = (if dbl_max < \<bar>v ^ n\<bar> then Inl OverflowError else Inr (v ^ n))"

text \<open>
  \<^verbatim>\<open>round(v)\<close> rounds to the nearest integer and a tie to the even one;
  \<^verbatim>\<open>round(v, 2)\<close> does so at the second decimal place.
\<close>

definition py_round :: "real \<Rightarrow> int" where
  "py_round v =
     (let f = \<lfloor>v\<rfloor>; d = v - of_int f
      in if d < 1 / 2 then f
         else if 1 / 2 < d then f + 1
         else if even f then f else f + 1)"

definition py_round2 :: "real \<Rightarrow> real" where
  "py_round2 v = of_int (py_round (v * 100)) / 100"

section \<open>Distance from RSSI\<close>



definition calculate_distance_from_rssi :: "int \<Rightarrow> int \<Rightarrow> real \<Rightarrow> py_error + real" where
  "calculate_distance_from_rssi rssi tx_power environment_factor =
     (if 0 \<le> rssi then Inr 0
      else
        try_except [ValueError, OverflowError] 999
          (bind_err (py_truediv (of_int (tx_power - rssi)) (10 * environment_factor)) (\<lambda>ratio.
           bind_err (math_pow 10 ratio) (\<lambda>distance.
           Inr (py_round2 distance)))))"

section \<open>Signal quality\<close>

definition get_signal_quality :: "int \<Rightarrow> string \<times> string" where
  "get_signal_quality rssi =
     (if - 50 \<le> rssi then (''excellent'', ''Excellent - Very close'')
      else if - 60 \<le> rssi then (''good'', ''Good - Within 5m'')
      else if - 70 \<le> rssi then (''fair'', ''Fair - Within 10m'')
      else if - 80 \<le> rssi then (''weak'', ''Weak - Within 20m'')
      else if - 90 \<le> rssi then (''very_weak'', ''Very Weak - Far away'')
      else (''minimal'', ''Minimal - At range limit''))"

section \<open>Navigation guidance\<close>

text \<open>
  The result is a Python dict whose set of keys depends on the branch, so it is an
  association list from key to value. The two messages that end in a non-ASCII symbol
  carry its UTF-8 bytes.
\<close>

datatype py_value = PyStr string | PyFloat real | PyInt int

type_synonym py_dict = "(string \<times> py_value) list"


definition get_navigation_guidance :: "int \<Rightarrow> int option \<Rightarrow> int \<Rightarrow> py_dict" where
  "get_navigation_guidance current_rssi previous_rssi threshold =
     (case previous_rssi of
        None \<Rightarrow>
          [(''direction'', PyStr ''unknown''),
           (''message'', PyStr ''Start moving to calibrate direction''),
           (''confidence'', PyFloat 0)]
      | Some previous \<Rightarrow>
          let change = current_rssi - previous in
          if \<bar>change\<bar> < threshold then
            [(''direction'', PyStr ''stable''),
             (''message'', PyStr ''Signal stable - try moving in a different direction''),
             (''confidence'', PyFloat (3 / 10)),
             (''rssi_change'', PyInt change)]
          else if 0 < change then
            let confidence = min 1 (of_int \<bar>change\<bar> / 10) in
            [(''direction'', PyStr ''closer''),
             (''message'', PyStr (''Getting closer! Keep going this direction ''
                 @ [CHR 0xE2, CHR 0x9C, CHR 0x93])),
             (''confidence'', PyFloat confidence),
             (''rssi_change'', PyInt change)]
          else
            let confidence = min 1 (of_int \<bar>change\<bar> / 10) in
            [(''direction'', PyStr ''farther''),
             (''message'', PyStr (''Moving away - turn around ''
                 @ [CHR 0xE2, CHR 0x86, CHR 0xBA])),
             (''confidence'', PyFloat confidence),
             (''rssi_change'', PyInt change)])"

section \<open>Heat-map cell classification\<close>


section \<open>Trilateration\<close>

text \<open>
  \<^verbatim>\<open>estimate_position_from_beacons(beacon_distances)\<close> takes a list of dicts with the
  keys \<open>x\<close>, \<open>y\<close> and \<open>distance\<close>, whose values are floats. A missing key raises
  \<open>KeyError\<close>. The operands are evaluated left to right, line by line, so the first
  exception of that order is the one raised; the handler lists \<open>KeyError\<close>,
  \<open>ZeroDivisionError\<close> and \<open>ValueError\<close>.
\<close>

type_synonym beacon = "string \<rightharpoonup> real"

definition getitem :: "beacon \<Rightarrow> string \<Rightarrow> py_error + real" where
  "getitem b k = (case b k of None \<Rightarrow> Inl KeyError | Some v \<Rightarrow> Inr v)"

text \<open>\<^verbatim>\<open>2 * (p[k] - q[k])\<close>, the shape of the lines for \<open>A\<close>, \<open>B\<close>, \<open>D\<close> and \<open>E\<close>.\<close>

definition twice_diff :: "beacon \<Rightarrow> beacon \<Rightarrow> string \<Rightarrow> py_error + real" where
  "twice_diff p q k =
     bind_err (getitem p k) (\<lambda>u.
     bind_err (getitem q k) (\<lambda>v.
     Inr (2 * (u - v))))"

text \<open>\<^verbatim>\<open>b[k]**2\<close>\<close>

definition item_squared :: "beacon \<Rightarrow> string \<Rightarrow> py_error + real" where
  "item_squared b k = bind_err (getitem b k) (\<lambda>v. py_float_pow v 2)"

text \<open>
  \<^verbatim>\<open>p['distance']**2 - q['distance']**2 - p['x']**2 + q['x']**2 - p['y']**2 + q['y']**2\<close>,
  the shape of the lines for \<open>C\<close> and \<open>F\<close>.
\<close>

definition circle_diff :: "beacon \<Rightarrow> beacon \<Rightarrow> py_error + real" where
  "circle_diff p q =
     bind_err (item_squared p ''distance'') (\<lambda>pd.
     bind_err (item_squared q ''distance'') (\<lambda>qd.
     bind_err (item_squared p ''x'') (\<lambda>px.
     bind_err (item_squared q ''x'') (\<lambda>qx.
     bind_err (item_squared p ''y'') (\<lambda>py.
     bind_err (item_squared q ''y'') (\<lambda>qy.
     Inr (pd - qd - px + qx - py + qy)))))))"

text \<open>
  The body of the \<^verbatim>\<open>try\<close>. Unpacking \<^verbatim>\<open>beacon_distances[:3]\<close> into three names raises
  \<open>ValueError\<close> unless the slice has three elements.
\<close>

definition trilaterate_body :: "beacon list \<Rightarrow> py_error + (real \<times> real) option" where
  "trilaterate_body beacon_distances =
     (case take 3 beacon_distances of
        [b1, b2, b3] \<Rightarrow>
          bind_err (twice_diff b2 b1 ''x'') (\<lambda>A.
          bind_err (twice_diff b2 b1 ''y'') (\<lambda>B.
          bind_err (circle_diff b1 b2) (\<lambda>C.
          bind_err (twice_diff b3 b2 ''x'') (\<lambda>D.
          bind_err (twice_diff b3 b2 ''y'') (\<lambda>E.
          bind_err (circle_diff b2 b3) (\<lambda>F.
          let denominator = A * E - B * D in
          if \<bar>denominator\<bar> < 1 / 10000 then Inr None
          else
            bind_err (py_truediv (C * E - B * F) denominator) (\<lambda>px.
            bind_err (py_truediv (A * F - C * D) denominator) (\<lambda>py.
            Inr (Some (py_round2 px, py_round2 py))))))))))
      | _ \<Rightarrow> Inl ValueError)"

definition estimate_position_from_beacons ::
    "beacon list \<Rightarrow> py_error + (real \<times> real) option" where
  "estimate_position_from_beacons beacon_distances =
     (if length beacon_distances < 3 then Inr None
      else try_except [KeyError, ZeroDivisionError, ValueError] None
             (trilaterate_body beacon_distances))"

text \<open>An anchor \<open>(x, y, distance)\<close> as the dict the function reads.\<close>

definition anchor :: "real \<Rightarrow> real \<Rightarrow> real \<Rightarrow> beacon" where
  "anchor ax ay ad = [''x'' \<mapsto> ax, ''y'' \<mapsto> ay, ''distance'' \<mapsto> ad]"

section \<open>Heat-map grid\<close>

text \<open>
  The \<^verbatim>\<open>grid\<close> action of \<^verbatim>\<open>HeatMapDataViewSet\<close>, from the rows of the session on: the
  request parameter check and the database query are outside the model, and the rows
  \<^verbatim>\<open>data_points\<close> are a list in the order the query yields them. The response is a
  record of the dict's six entries. A cell of the response is the dict with the keys
  \<open>x\<close>, \<open>y\<close>, \<open>status\<close> and \<open>signal_strength\<close>; its fields are called \<open>out_x\<close>,
  \<open>out_y\<close>, \<open>out_status\<close> and \<open>out_signal_strength\<close> here, and \<^verbatim>\<open>None\<close> for the
  signal strength is \<open>None\<close>.
\<close>

record heat_map_data =
  grid_x :: int
  grid_y :: int
  signal_strength :: int
  cell_status :: string

record grid_cell =
  out_x :: int
  out_y :: int
  out_status :: string
  out_signal_strength :: "int option"

record grid_response =
  grid :: "grid_cell list list"
  min_x :: int
  max_x :: int
  min_y :: int
  max_y :: int
  cell_count :: nat

text \<open>\<^verbatim>\<open>min(...)\<close> and \<^verbatim>\<open>max(...)\<close> over a generator that yields at least one value.\<close>

definition py_min :: "int list \<Rightarrow> int" where
  "py_min vs = fold min (tl vs) (hd vs)"

definition py_max :: "int list \<Rightarrow> int" where
  "py_max vs = fold max (tl vs) (hd vs)"

definition point_cell :: "heat_map_data \<Rightarrow> grid_cell" where
  "point_cell point =
     \<lparr>out_x = grid_x point, out_y = grid_y point, out_status = cell_status point,
      out_signal_strength = Some (signal_strength point)\<rparr>"

definition unknown_cell :: "int \<Rightarrow> int \<Rightarrow> grid_cell" where
  "unknown_cell cx cy =
     \<lparr>out_x = cx, out_y = cy, out_status = ''unknown'', out_signal_strength = None\<rparr>"

text \<open>The loop that fills the dict keyed by \<open>(grid_x, grid_y)\<close>.\<close>

definition fill_cells :: "heat_map_data list \<Rightarrow> (int \<times> int \<rightharpoonup> grid_cell)" where
  "fill_cells data_points =
     fold (\<lambda>point g. g((grid_x point, grid_y point) \<mapsto> point_cell point)) data_points Map.empty"

definition build_grid :: "heat_map_data list \<Rightarrow> grid_response" where
  "build_grid data_points =
     (if data_points = [] then
        \<lparr>grid = [], min_x = 0, max_x = 0, min_y = 0, max_y = 0, cell_count = 0\<rparr>
      else
        let lo_x = py_min (map grid_x data_points);
            hi_x = py_max (map grid_x data_points);
            lo_y = py_min (map grid_y data_points);
            hi_y = py_max (map grid_y data_points);
            cells = fill_cells data_points;
            grid_2d =
              map (\<lambda>cy. map (\<lambda>cx. case cells (cx, cy) of
                                      Some cell \<Rightarrow> cell
                                    | None \<Rightarrow> unknown_cell cx cy)
                              [lo_x..hi_x])
                  [lo_y..hi_y]
        in \<lparr>grid = grid_2d, min_x = lo_x, max_x = hi_x, min_y = lo_y, max_y = hi_y,
            cell_count = length data_points\<rparr>)"

section \<open>Reference notions of the statements\<close>




text \<open>A float whose square is within the double range, and an anchor of three such.\<close>

definition square_fits :: "real \<Rightarrow> bool" where
  "square_fits v \<longleftrightarrow> v\<^sup>2 \<le> dbl_max"

definition anchor_fits :: "real \<Rightarrow> real \<Rightarrow> real \<Rightarrow> bool" where
  "anchor_fits ax ay ad \<longleftrightarrow> square_fits ax \<and> square_fits ay \<and> square_fits ad"

text \<open>
  The coefficients \<open>A\<close> to \<open>F\<close> of the two linear equations, the determinant
  \<open>A * E - B * D\<close> and the solution by Cramer's rule, rounded to two decimal places.
\<close>

definition trilaterate_denominator ::
    "real \<Rightarrow> real \<Rightarrow> real \<Rightarrow> real \<Rightarrow> real \<Rightarrow> real \<Rightarrow> real" where
  "trilaterate_denominator x1 y1 x2 y2 x3 y3 =
     (let A = 2 * (x2 - x1); B = 2 * (y2 - y1);
          D = 2 * (x3 - x2); E = 2 * (y3 - y2)
      in A * E - B * D)"

definition trilaterate_reference ::
    "real \<Rightarrow> real \<Rightarrow> real \<Rightarrow> real \<Rightarrow> real \<Rightarrow> real \<Rightarrow> real \<Rightarrow> real \<Rightarrow> real
       \<Rightarrow> real \<times> real" where
  "trilaterate_reference x1 y1 d1 x2 y2 d2 x3 y3 d3 =
     (let A = 2 * (x2 - x1); B = 2 * (y2 - y1);
          C = d1\<^sup>2 - d2\<^sup>2 - x1\<^sup>2 + x2\<^sup>2 - y1\<^sup>2 + y2\<^sup>2;
          D = 2 * (x3 - x2); E = 2 * (y3 - y2);
          F = d2\<^sup>2 - d3\<^sup>2 - x2\<^sup>2 + x3\<^sup>2 - y2\<^sup>2 + y3\<^sup>2
      in (py_round2 ((C * E - B * F) / (A * E - B * D)),
          py_round2 ((A * F - C * D) / (A * E - B * D))))"

text \<open>
  The last row of \<open>data_points\<close> with the key \<open>(cx, cy)\<close>, if there is one, and the cell
  the grid is to show at that key: the cell of that row, or the synthesized unknown cell.
\<close>

definition last_at :: "heat_map_data list \<Rightarrow> int \<Rightarrow> int \<Rightarrow> heat_map_data option" where
  "last_at data_points cx cy =
     find (\<lambda>point. grid_x point = cx \<and> grid_y point = cy) (rev data_points)"

definition expected_cell :: "heat_map_data list \<Rightarrow> int \<Rightarrow> int \<Rightarrow> grid_cell" where
  "expected_cell data_points cx cy =
     (case last_at data_points cx cy of
        Some point \<Rightarrow> point_cell point
      | None \<Rightarrow> unknown_cell cx cy)"

text \<open>Three rows, two of them at the key \<open>(0, 0)\<close>, for the examples below.\<close>

definition sample_points :: "heat_map_data list" where
  "sample_points =
     [\<lparr>grid_x = 0, grid_y = 0, signal_strength = - 60, cell_status = ''clear''\<rparr>,
      \<lparr>grid_x = 2, grid_y = 2, signal_strength = - 88, cell_status = ''obstacle''\<rparr>,
      \<lparr>grid_x = 0, grid_y = 0, signal_strength = - 75, cell_status = ''unstable''\<rparr>]"

section \<open>Rounding and powers of ten\<close>







section \<open>Properties of the distance estimate\<close>


text \<open>
  With a negative \<open>rssi\<close> and the environment factor \<open>0\<close> the division raises
  \<open>ZeroDivisionError\<close>, which is not among the classes the handler lists, so the
  exception leaves the function whatever \<open>tx_power\<close> is.
\<close>

lemma distance_zero_factor:
  "rssi < 0 \<Longrightarrow> calculate_distance_from_rssi rssi tx_power 0 = Inl ZeroDivisionError"
  by (simp add: calculate_distance_from_rssi_def try_except_def bind_err_def py_truediv_def)

text \<open>
  C1: for every \<open>rssi < 0\<close> and \<open>tx_power\<close>, the call with \<open>environment_factor = 0\<close>
  returns the sentinel \<open>999.0\<close> and propagates no exception. The code does otherwise:
  at \<open>rssi = -60\<close>, \<open>tx_power = -59\<close>, \<open>environment_factor = 0\<close> the
  \<open>ZeroDivisionError\<close> of the ratio reaches the caller.
\<close>

theorem distance_zero_factor_raises:
  "calculate_distance_from_rssi (- 60) (- 59) 0 = Inl ZeroDivisionError"
  by (simp add: calculate_distance_from_rssi_def try_except_def bind_err_def py_truediv_def)






section \<open>Properties of the signal quality\<close>

text \<open>
  C9: the quality level follows the threshold ladder with inclusive lower bounds, for every
  integer \<open>rssi\<close>: at least \<open>-50\<close> is excellent, otherwise at least \<open>-60\<close> is good,
  at least \<open>-70\<close> fair, at least \<open>-80\<close> weak, at least \<open>-90\<close> very weak, and
  anything lower minimal. The bands are disjoint intervals, so exactly one applies. In
  particular \<open>-60\<close> is good, \<open>-50\<close> excellent and \<open>-95\<close> minimal.
\<close>

theorem signal_quality_ladder:
  "(- 50 \<le> rssi \<longrightarrow> fst (get_signal_quality rssi) = ''excellent'') \<and>
   (- 60 \<le> rssi \<and> rssi < - 50 \<longrightarrow> fst (get_signal_quality rssi) = ''good'') \<and>
   (- 70 \<le> rssi \<and> rssi < - 60 \<longrightarrow> fst (get_signal_quality rssi) = ''fair'') \<and>
   (- 80 \<le> rssi \<and> rssi < - 70 \<longrightarrow> fst (get_signal_quality rssi) = ''weak'') \<and>
   (- 90 \<le> rssi \<and> rssi < - 80 \<longrightarrow> fst (get_signal_quality rssi) = ''very_weak'') \<and>
   (rssi < - 90 \<longrightarrow> fst (get_signal_quality rssi) = ''minimal'') \<and>
   fst (get_signal_quality (- 60)) = ''good'' \<and>
   fst (get_signal_quality (- 50)) = ''excellent'' \<and>
   fst (get_signal_quality (- 95)) = ''minimal''"
  by (simp add: get_signal_quality_def)

text \<open>C9 at one reading of each band, the lower bounds \<open>-70\<close>, \<open>-80\<close> and \<open>-90\<close> among them.\<close>

theorem signal_quality_ladder_witness:
  "fst (get_signal_quality (- 40)) = ''excellent'' \<and>
   fst (get_signal_quality (- 55)) = ''good'' \<and>
   fst (get_signal_quality (- 70)) = ''fair'' \<and>
   fst (get_signal_quality (- 80)) = ''weak'' \<and>
   fst (get_signal_quality (- 90)) = ''very_weak'' \<and>
   fst (get_signal_quality (- 91)) = ''minimal''"
  using signal_quality_ladder [of "- 40"] signal_quality_ladder [of "- 55"]
    signal_quality_ladder [of "- 70"] signal_quality_ladder [of "- 80"]
    signal_quality_ladder [of "- 90"] signal_quality_ladder [of "- 91"]
  by simp

section \<open>Properties of the navigation guidance\<close>



text \<open>
  The three cases of C6 leave out a change of zero under a threshold that is not positive.
  There the code takes its last branch.
\<close>

lemma guidance_zero_change:
  "threshold \<le> 0 \<Longrightarrow>
   map_of (get_navigation_guidance current (Some current) threshold) ''direction''
     = Some (PyStr ''farther'')"
  by (simp add: get_navigation_guidance_def Let_def)


section \<open>Properties of the cell classification\<close>



section \<open>Properties of the trilateration\<close>

lemma getitem_anchor:
  "getitem (anchor ax ay ad) ''x'' = Inr ax"
  "getitem (anchor ax ay ad) ''y'' = Inr ay"
  "getitem (anchor ax ay ad) ''distance'' = Inr ad"
  by (simp_all add: getitem_def anchor_def)

lemma twice_diff_anchor:
  "twice_diff (anchor px py pd) (anchor qx qy qd) ''x'' = Inr (2 * (px - qx))"
  "twice_diff (anchor px py pd) (anchor qx qy qd) ''y'' = Inr (2 * (py - qy))"
  by (simp_all add: twice_diff_def bind_err_def getitem_anchor)

lemma py_float_pow_fits: "square_fits v \<Longrightarrow> py_float_pow v 2 = Inr (v\<^sup>2)"
  by (simp add: py_float_pow_def square_fits_def)

lemma circle_diff_anchor:
  assumes "anchor_fits px py pd" and "anchor_fits qx qy qd"
  shows "circle_diff (anchor px py pd) (anchor qx qy qd)
           = Inr (pd\<^sup>2 - qd\<^sup>2 - px\<^sup>2 + qx\<^sup>2 - py\<^sup>2 + qy\<^sup>2)"
  using assms
  by (simp add: circle_diff_def item_squared_def bind_err_def getitem_anchor
      py_float_pow_fits anchor_fits_def)

text \<open>
  On three anchors whose squares are within the double range the function returns: no
  solution when the determinant is below the guard, the rounded solution otherwise. The
  anchors after the third play no part.
\<close>

lemma trilaterate_anchors:
  assumes "anchor_fits x1 y1 d1" and "anchor_fits x2 y2 d2" and "anchor_fits x3 y3 d3"
  shows "estimate_position_from_beacons
           (anchor x1 y1 d1 # anchor x2 y2 d2 # anchor x3 y3 d3 # others) =
     (if \<bar>trilaterate_denominator x1 y1 x2 y2 x3 y3\<bar> < 1 / 10000 then Inr None
      else Inr (Some (trilaterate_reference x1 y1 d1 x2 y2 d2 x3 y3 d3)))"
  using assms
  by (simp add: estimate_position_from_beacons_def trilaterate_body_def bind_err_def
      try_except_def twice_diff_anchor circle_diff_anchor py_truediv_def
      trilaterate_denominator_def trilaterate_reference_def Let_def)

lemma trilaterate_too_few:
  "length beacon_distances < 3 \<Longrightarrow> estimate_position_from_beacons beacon_distances = Inr None"
  by (simp add: estimate_position_from_beacons_def)

lemma trilaterate_first_three:
  "estimate_position_from_beacons (b1 # b2 # b3 # others)
     = estimate_position_from_beacons [b1, b2, b3]"
  by (simp add: estimate_position_from_beacons_def trilaterate_body_def)

lemma trilaterate_degenerate:
  assumes "anchor_fits x1 y1 d1" and "anchor_fits x2 y2 d2" and "anchor_fits x3 y3 d3"
  shows "(estimate_position_from_beacons
            (anchor x1 y1 d1 # anchor x2 y2 d2 # anchor x3 y3 d3 # others) = Inr None
          \<longleftrightarrow> \<bar>trilaterate_denominator x1 y1 x2 y2 x3 y3\<bar> < 1 / 10000) \<and>
         (\<forall>e. estimate_position_from_beacons
            (anchor x1 y1 d1 # anchor x2 y2 d2 # anchor x3 y3 d3 # others) \<noteq> Inl e)"
  using assms by (simp add: trilaterate_anchors)

text \<open>A dict without the key \<open>distance\<close>: the \<open>KeyError\<close> is caught.\<close>

lemma trilaterate_missing_key:
  "estimate_position_from_beacons [[''x'' \<mapsto> 0, ''y'' \<mapsto> 0], anchor 1 0 1, anchor 0 1 1]
     = Inr None"
  by (simp add: estimate_position_from_beacons_def trilaterate_body_def bind_err_def
      try_except_def twice_diff_def circle_diff_def item_squared_def getitem_def anchor_def)

text \<open>Three collinear anchors have no solution.\<close>

lemma trilaterate_collinear:
  "estimate_position_from_beacons [anchor 0 0 5, anchor 1 1 5, anchor 2 2 5] = Inr None"
proof -
  have "anchor_fits 0 0 5" and "anchor_fits 1 1 5" and "anchor_fits 2 2 5"
    by (simp_all add: anchor_fits_def square_fits_def dbl_max_def)
  then show ?thesis
    by (simp add: trilaterate_anchors trilaterate_denominator_def)
qed

text \<open>
  C7: the trilateration returns no solution exactly in the degenerate cases (fewer than
  three anchors; a determinant of the first three below \<open>1e-4\<close>), uses only the first
  three anchors, and no exception ever reaches the caller. The code does otherwise on the
  last point: the squares are computed by the float operator \<^verbatim>\<open>**\<close> inside the
  \<^verbatim>\<open>try\<close>, whose handler does not list \<open>OverflowError\<close>, so with the anchors
  \<open>(0, 0, 1e200)\<close>, \<open>(1, 0, 1)\<close>, \<open>(0, 1, 1)\<close> the overflow of the first square reaches
  the caller. The lemmas \<open>trilaterate_too_few\<close>, \<open>trilaterate_first_three\<close> and
  \<open>trilaterate_degenerate\<close> above are the rest of the claim, where no square overflows.
\<close>

theorem trilaterate_overflow_raises:
  "estimate_position_from_beacons [anchor 0 0 (10 ^ 200), anchor 1 0 1, anchor 0 1 1]
     = Inl OverflowError"
  by (simp add: estimate_position_from_beacons_def trilaterate_body_def bind_err_def
      try_except_def twice_diff_anchor circle_diff_def item_squared_def getitem_anchor
      py_float_pow_def dbl_max_def)




section \<open>Properties of the grid\<close>

lemma py_min_Min: "vs \<noteq> [] \<Longrightarrow> py_min vs = Min (set vs)"
  by (cases vs) (simp_all add: py_min_def Min.set_eq_fold [symmetric])

lemma py_max_Max: "vs \<noteq> [] \<Longrightarrow> py_max vs = Max (set vs)"
  by (cases vs) (simp_all add: py_max_def Max.set_eq_fold [symmetric])

lemma find_Some_holds: "find P vs = Some v \<Longrightarrow> P v"
  by (induction vs) (auto split: if_splits)

lemma last_at_None_iff:
  "last_at data_points cx cy = None \<longleftrightarrow>
     (\<forall>point \<in> set data_points. \<not> (grid_x point = cx \<and> grid_y point = cy))"
  by (auto simp add: last_at_def find_None_iff)

text \<open>Each pass of the loop overwrites the entry of its key, so the last row of a key stays.\<close>

lemma fill_cells_snoc:
  "fill_cells (data_points @ [point]) =
     (fill_cells data_points)((grid_x point, grid_y point) \<mapsto> point_cell point)"
  by (simp add: fill_cells_def)

lemma fill_cells_last:
  "fill_cells data_points (cx, cy) = map_option point_cell (last_at data_points cx cy)"
proof (induction data_points rule: rev_induct)
  case Nil
  show ?case by (simp add: fill_cells_def last_at_def)
next
  case (snoc point data_points)
  then show ?case by (simp add: fill_cells_snoc last_at_def)
qed

lemma fill_cells_expected:
  "(case fill_cells data_points (cx, cy) of Some cell \<Rightarrow> cell | None \<Rightarrow> unknown_cell cx cy)
     = expected_cell data_points cx cy"
  by (simp add: fill_cells_last expected_cell_def split: option.split)

lemma expected_cell_coords:
  "out_x (expected_cell data_points cx cy) = cx \<and> out_y (expected_cell data_points cx cy) = cy"
  by (auto simp add: expected_cell_def last_at_def point_cell_def unknown_cell_def
      split: option.split dest: find_Some_holds)

lemma nth_rows:
  assumes "i < nat (hi_y - lo_y + 1)" and "j < nat (hi_x - lo_x + 1)"
  shows "map (\<lambda>cy. map (\<lambda>cx. f cx cy) [lo_x..hi_x]) [lo_y..hi_y] ! i ! j
           = f (lo_x + int j) (lo_y + int i)"
proof -
  from assms have "lo_y + int i \<le> hi_y" and "lo_x + int j \<le> hi_x"
    by linarith+
  with assms show ?thesis
    by simp
qed

lemma grid_nonempty:
  assumes "data_points \<noteq> []"
  shows "build_grid data_points =
     \<lparr>grid = map (\<lambda>cy. map (\<lambda>cx. expected_cell data_points cx cy)
                 [Min (grid_x ` set data_points)..Max (grid_x ` set data_points)])
            [Min (grid_y ` set data_points)..Max (grid_y ` set data_points)],
      min_x = Min (grid_x ` set data_points), max_x = Max (grid_x ` set data_points),
      min_y = Min (grid_y ` set data_points), max_y = Max (grid_y ` set data_points),
      cell_count = length data_points\<rparr>"
  using assms
  by (simp add: build_grid_def Let_def py_min_Min py_max_Max fill_cells_expected)

text \<open>
  C5: the grid structure. For no rows the response is the empty grid with all bounds
  \<open>0\<close> and the cell count \<open>0\<close>. For at least one row, the bounds are the bounding box
  of the supplied coordinates; the grid has exactly \<open>max_y - min_y + 1\<close> rows of exactly
  \<open>max_x - min_x + 1\<close> cells each; the cell in row \<open>i\<close> and column \<open>j\<close> is the one for
  \<open>x = min_x + j\<close>, \<open>y = min_y + i\<close>, so rows ascend in \<open>y\<close> and cells in \<open>x\<close>; that
  cell is the last one submitted for its key, or the synthesized cell with the status
  unknown and no signal strength where no row has the key; and every supplied key lies
  in the box and has such a last cell.
\<close>

theorem build_grid_structure:
  "build_grid [] = \<lparr>grid = [], min_x = 0, max_x = 0, min_y = 0, max_y = 0, cell_count = 0\<rparr> \<and>
   (data_points \<noteq> [] \<longrightarrow>
      (let r = build_grid data_points;
           w = nat (max_x r - min_x r + 1);
           h = nat (max_y r - min_y r + 1)
       in min_x r = Min (grid_x ` set data_points) \<and> max_x r = Max (grid_x ` set data_points) \<and>
          min_y r = Min (grid_y ` set data_points) \<and> max_y r = Max (grid_y ` set data_points) \<and>
          length (grid r) = h \<and>
          (\<forall>row \<in> set (grid r). length row = w) \<and>
          (\<forall>i < h. \<forall>j < w.
             grid r ! i ! j = expected_cell data_points (min_x r + int j) (min_y r + int i) \<and>
             out_x (grid r ! i ! j) = min_x r + int j \<and>
             out_y (grid r ! i ! j) = min_y r + int i) \<and>
          (\<forall>point \<in> set data_points.
             min_x r \<le> grid_x point \<and> grid_x point \<le> max_x r \<and>
             min_y r \<le> grid_y point \<and> grid_y point \<le> max_y r \<and>
             last_at data_points (grid_x point) (grid_y point) \<noteq> None)))"
proof (intro conjI impI)
  show "build_grid [] = \<lparr>grid = [], min_x = 0, max_x = 0, min_y = 0, max_y = 0, cell_count = 0\<rparr>"
    by (simp add: build_grid_def)
next
  assume ne: "data_points \<noteq> []"
  show "let r = build_grid data_points;
           w = nat (max_x r - min_x r + 1);
           h = nat (max_y r - min_y r + 1)
       in min_x r = Min (grid_x ` set data_points) \<and> max_x r = Max (grid_x ` set data_points) \<and>
          min_y r = Min (grid_y ` set data_points) \<and> max_y r = Max (grid_y ` set data_points) \<and>
          length (grid r) = h \<and>
          (\<forall>row \<in> set (grid r). length row = w) \<and>
          (\<forall>i < h. \<forall>j < w.
             grid r ! i ! j = expected_cell data_points (min_x r + int j) (min_y r + int i) \<and>
             out_x (grid r ! i ! j) = min_x r + int j \<and>
             out_y (grid r ! i ! j) = min_y r + int i) \<and>
          (\<forall>point \<in> set data_points.
             min_x r \<le> grid_x point \<and> grid_x point \<le> max_x r \<and>
             min_y r \<le> grid_y point \<and> grid_y point \<le> max_y r \<and>
             last_at data_points (grid_x point) (grid_y point) \<noteq> None)"
    unfolding Let_def grid_nonempty [OF ne]
    by (auto simp add: nth_rows expected_cell_coords last_at_None_iff simp del: nth_map)
qed

text \<open>
  C5 on \<open>sample_points\<close>, whose keys are \<open>(0, 0)\<close>, \<open>(2, 2)\<close> and \<open>(0, 0)\<close> again: three
  rows of three cells, the later row of \<open>(0, 0)\<close> in the first corner, the row of
  \<open>(2, 2)\<close> in the last, and an unknown cell in between.
\<close>

theorem build_grid_structure_witness:
  "length (grid (build_grid sample_points)) = 3 \<and>
   length (grid (build_grid sample_points) ! 1) = 3 \<and>
   grid (build_grid sample_points) ! 0 ! 0 =
     \<lparr>out_x = 0, out_y = 0, out_status = ''unstable'', out_signal_strength = Some (- 75)\<rparr> \<and>
   grid (build_grid sample_points) ! 2 ! 2 =
     \<lparr>out_x = 2, out_y = 2, out_status = ''obstacle'', out_signal_strength = Some (- 88)\<rparr> \<and>
   grid (build_grid sample_points) ! 1 ! 2 =
     \<lparr>out_x = 2, out_y = 1, out_status = ''unknown'', out_signal_strength = None\<rparr>"
proof -
  have r: "min_x (build_grid sample_points) = 0 \<and> max_x (build_grid sample_points) = 2 \<and>
      min_y (build_grid sample_points) = 0 \<and> max_y (build_grid sample_points) = 2"
    by (simp add: build_grid_def sample_points_def py_min_def py_max_def Let_def)
  have ne: "sample_points \<noteq> []"
    by (simp add: sample_points_def)
  from build_grid_structure [of sample_points] ne
  have g: "length (grid (build_grid sample_points)) = 3 \<and>
      (\<forall>row \<in> set (grid (build_grid sample_points)). length row = 3) \<and>
      (\<forall>i < 3. \<forall>j < 3. grid (build_grid sample_points) ! i ! j
          = expected_cell sample_points (int j) (int i))"
    by (simp add: Let_def r)
  have e: "expected_cell sample_points 0 0 =
       \<lparr>out_x = 0, out_y = 0, out_status = ''unstable'', out_signal_strength = Some (- 75)\<rparr> \<and>
     expected_cell sample_points 2 2 =
       \<lparr>out_x = 2, out_y = 2, out_status = ''obstacle'', out_signal_strength = Some (- 88)\<rparr> \<and>
     expected_cell sample_points 2 1 =
       \<lparr>out_x = 2, out_y = 1, out_status = ''unknown'', out_signal_strength = None\<rparr>"
    by (simp add: expected_cell_def last_at_def sample_points_def point_cell_def unknown_cell_def)
  from g have "grid (build_grid sample_points) ! 1 \<in> set (grid (build_grid sample_points))"
    by simp
  with g have "length (grid (build_grid sample_points) ! 1) = 3"
    by blast
  moreover from g have "grid (build_grid sample_points) ! 0 ! 0 = expected_cell sample_points 0 0"
    "grid (build_grid sample_points) ! 2 ! 2 = expected_cell sample_points 2 2"
    "grid (build_grid sample_points) ! 1 ! 2 = expected_cell sample_points 2 1"
    by force+
  ultimately show ?thesis
    using g e by simp
qed

end
